theory Spec2Isabelle
  imports Main "HOL-Library.Sublist"
begin

section \<open>Filmlog: a shallow embedding of app.py\<close>

text \<open>
  The application is a Flask program over an SQLite database and a data directory.
  Every handler is modelled as a function from the request and the persistent state
  (the Roll table, the AppSetting table, the files of the data directory) to a
  response and the new state. Strings are ASCII character lists. Roll ids are
  Python integers (\<open>int\<close>); the 64-bit range of SQLite is not modelled.
\<close>

subsection \<open>Python string primitives\<close>

definition is_digit :: "char \<Rightarrow> bool" where
  "is_digit c = (c \<in> set ''0123456789'')"

definition digit_val :: "char \<Rightarrow> nat" where
  "digit_val c = of_char c - 48"

text \<open>\<^verbatim>\<open>str.isdigit()\<close>: non-empty and digits only.\<close>

definition isdigit :: "string \<Rightarrow> bool" where
  "isdigit s = (s \<noteq> [] \<and> list_all is_digit s)"

text \<open>The white space that \<^verbatim>\<open>int()\<close> strips: codes 9 to 13, 28 to 31 and 32.\<close>

definition is_space :: "char \<Rightarrow> bool" where
  "is_space c = (let n = (of_char c :: nat) in (9 \<le> n \<and> n \<le> 13) \<or> (28 \<le> n \<and> n \<le> 32))"

definition strip :: "string \<Rightarrow> string" where
  "strip s = rev (dropWhile is_space (rev (dropWhile is_space s)))"

text \<open>\<^verbatim>\<open>str.lower()\<close> on ASCII.\<close>

definition to_lower :: "char \<Rightarrow> char" where
  "to_lower c =
     (case map_of (zip ''ABCDEFGHIJKLMNOPQRSTUVWXYZ'' ''abcdefghijklmnopqrstuvwxyz'') c of
        Some d \<Rightarrow> d
      | None \<Rightarrow> c)"

definition lower :: "string \<Rightarrow> string" where
  "lower s = map to_lower s"

text \<open>
  \<^verbatim>\<open>int(s)\<close> for a string: white space is stripped on both sides, one sign is allowed,
  then decimal digits, where single underscores may stand between digits. \<open>None\<close> is
  the \<^verbatim>\<open>ValueError\<close>. The limit that newer interpreters put on the number of digits is
  not modelled.
\<close>

fun py_num :: "nat \<Rightarrow> string \<Rightarrow> nat option" where
  "py_num acc [] = Some acc"
| "py_num acc [c] = (if is_digit c then Some (10 * acc + digit_val c) else None)"
| "py_num acc (c # d # ds) =
     (if is_digit c then py_num (10 * acc + digit_val c) (d # ds)
      else if c = CHR ''_'' \<and> is_digit d then py_num (10 * acc + digit_val d) ds
      else None)"

definition py_digits :: "string \<Rightarrow> nat option" where
  "py_digits s = (case s of [] \<Rightarrow> None
                  | c # cs \<Rightarrow> if is_digit c then py_num (digit_val c) cs else None)"

definition py_int :: "string \<Rightarrow> int option" where
  "py_int s =
     (case strip s of
        [] \<Rightarrow> None
      | c # cs \<Rightarrow>
          if c = CHR ''-'' then map_option (\<lambda>n. - int n) (py_digits cs)
          else if c = CHR ''+'' then map_option int (py_digits cs)
          else map_option int (py_digits (c # cs)))"

text \<open>\<^verbatim>\<open>f"{n:04d}"\<close>: decimal, zero-padded to width 4, the sign counted in the width.\<close>

fun dec :: "nat \<Rightarrow> string" where
  "dec n = (if n < 10 then [''0123456789'' ! n] else dec (n div 10) @ [''0123456789'' ! (n mod 10)])"

definition zfill :: "nat \<Rightarrow> string \<Rightarrow> string" where
  "zfill w s = replicate (w - length s) CHR ''0'' @ s"

definition fmt04 :: "int \<Rightarrow> string" where
  "fmt04 n = (if n < 0 then CHR ''-'' # zfill 3 (dec (nat (- n))) else zfill 4 (dec (nat n)))"

subsection \<open>Dates: \<^verbatim>\<open>datetime.strptime(s, '%Y-%m-%d').date()\<close>\<close>

text \<open>
  The format compiles to the regular expression
  \<^verbatim>\<open>(\d\d\d\d)-(1[0-2]|0[1-9]|[1-9])-(3[0-1]|[1-2]\d|0[1-9]|[1-9]| [1-9])\<close>,
  the whole string has to be consumed, and the date has to exist (year from 1, day
  within the month). \<open>None\<close> is the \<^verbatim>\<open>ValueError\<close>.
\<close>

type_synonym date = "nat \<times> nat \<times> nat"

definition month_tok :: "string \<Rightarrow> nat option" where
  "month_tok t =
     (case t of
        [a] \<Rightarrow> if is_digit a \<and> a \<noteq> CHR ''0'' then Some (digit_val a) else None
      | [a, b] \<Rightarrow>
          if a = CHR ''1'' \<and> b \<in> set ''012'' then Some (10 + digit_val b)
          else if a = CHR ''0'' \<and> is_digit b \<and> b \<noteq> CHR ''0'' then Some (digit_val b)
          else None
      | _ \<Rightarrow> None)"

definition day_tok :: "string \<Rightarrow> nat option" where
  "day_tok t =
     (case t of
        [a] \<Rightarrow> if is_digit a \<and> a \<noteq> CHR ''0'' then Some (digit_val a) else None
      | [a, b] \<Rightarrow>
          if a = CHR ''3'' \<and> b \<in> set ''01'' then Some (30 + digit_val b)
          else if a \<in> set ''12'' \<and> is_digit b then Some (10 * digit_val a + digit_val b)
          else if a \<in> set ''0 '' \<and> is_digit b \<and> b \<noteq> CHR ''0'' then Some (digit_val b)
          else None
      | _ \<Rightarrow> None)"

definition is_leap :: "nat \<Rightarrow> bool" where
  "is_leap y = (y mod 4 = 0 \<and> (y mod 100 \<noteq> 0 \<or> y mod 400 = 0))"

definition days_in_month :: "nat \<Rightarrow> nat \<Rightarrow> nat" where
  "days_in_month y m =
     (if m = 2 then (if is_leap y then 29 else 28)
      else if m \<in> {4, 6, 9, 11} then 30 else 31)"

definition strptime_ymd :: "string \<Rightarrow> date option" where
  "strptime_ymd s =
     (case s of
        y1 # y2 # y3 # y4 # h # rest \<Rightarrow>
          if list_all is_digit [y1, y2, y3, y4] \<and> h = CHR ''-'' then
            (case dropWhile (\<lambda>c. c \<noteq> CHR ''-'') rest of
               [] \<Rightarrow> None
             | _ # dtok \<Rightarrow>
                 (case (month_tok (takeWhile (\<lambda>c. c \<noteq> CHR ''-'') rest), day_tok dtok) of
                    (Some m, Some d) \<Rightarrow>
                      let y = 1000 * digit_val y1 + 100 * digit_val y2
                              + 10 * digit_val y3 + digit_val y4
                      in if 1 \<le> y \<and> d \<le> days_in_month y m then Some (y, m, d) else None
                  | _ \<Rightarrow> None))
          else None
      | _ \<Rightarrow> None)"

subsection \<open>The persistent state\<close>

text \<open>
  A row of the Roll table. Nullable columns are options. The table is the list of its
  rows; \<open>id\<close> is the primary key, so an insertion with a taken id fails.
\<close>

record roll =
  rid :: int
  film_type :: string
  iso :: "int option"
  camera :: "string option"
  lens :: "string option"
  date_started :: "date option"
  date_finished :: "date option"
  date_added :: nat
  contact_sheet :: "string option"
  roll_notes :: "string option"

type_synonym bytes = string

text \<open>Files of the data directory: \<^verbatim>\<open>Data/<name>\<close> and \<^verbatim>\<open>Data/Images/<name>\<close>.\<close>

datatype path = DataFile string | ImageFile string

record world =
  rolls :: "roll list"
  settings :: "string \<rightharpoonup> string option"
  fs :: "path \<rightharpoonup> bytes"

text \<open>
  What a handler takes from outside the source file: the clock, Pillow's re-encoding of
  an upload (\<open>None\<close> when it raises), werkzeug's \<^verbatim>\<open>secure_filename\<close> and the reading
  of an uploaded zip archive (\<open>None\<close> when \<^verbatim>\<open>zipfile.ZipFile\<close> raises), and which
  \<^verbatim>\<open>os.path\<close> the process runs with. An archive is the list of its entries, name and
  content, in the order of \<^verbatim>\<open>namelist()\<close>.
\<close>

type_synonym archive = "(string \<times> bytes) list"

datatype platform = Posix | Windows

record env =
  os_name :: platform
  timestamp :: string
  utcnow :: nat
  pil_save :: "bytes \<Rightarrow> bytes option"
  secure_filename :: "string \<Rightarrow> string"
  unzip :: "bytes \<Rightarrow> archive option"

datatype meth = GET | POST

record upload =
  filename :: string
  content :: bytes

record request =
  req_method :: meth
  args :: "string \<rightharpoonup> string"
  form :: "string \<rightharpoonup> string"
  files :: "string \<rightharpoonup> upload"

datatype exn = ValueError | ImageError

datatype form_error = AlreadyExists int | DatabaseError

text \<open>
  Responses. \<open>BadRequest\<close> is the 400 of a missing form key, \<open>ServerError\<close> the 500
  of an exception that no handler catches, \<open>ErrorText\<close> the 500 with a message that
  the import returns itself.
\<close>

datatype response =
    Redirect string
  | RenderAddRoll "form_error option" int
  | RenderEditRoll roll
  | RenderIndex "roll list" string
  | NotFound
  | BadRequest
  | ServerError exn
  | ErrorText

subsection \<open>Queries\<close>

text \<open>\<^verbatim>\<open>Roll.query.get(id)\<close>\<close>

definition query_get :: "roll list \<Rightarrow> int \<Rightarrow> roll option" where
  "query_get rs i = find (\<lambda>r. rid r = i) rs"

text \<open>\<^verbatim>\<open>func.max(Roll.id)\<close>: \<open>None\<close> on the empty table.\<close>

fun max_id :: "roll list \<Rightarrow> int option" where
  "max_id [] = None"
| "max_id (r # rs) = (case max_id rs of None \<Rightarrow> Some (rid r) | Some m \<Rightarrow> Some (max (rid r) m))"

text \<open>\<^verbatim>\<open>last_roll = ... .scalar() or 0; next_id = last_roll + 1\<close>\<close>

definition next_id :: "roll list \<Rightarrow> int" where
  "next_id rs = (case max_id rs of None \<Rightarrow> 0 | Some m \<Rightarrow> if m = 0 then 0 else m) + 1"

text \<open>\<^verbatim>\<open>db.session.add(r); db.session.commit()\<close>: the primary key has to be free.\<close>

definition insert_roll :: "roll \<Rightarrow> roll list \<Rightarrow> roll list option" where
  "insert_roll r rs = (if query_get rs (rid r) \<noteq> None then None else Some (rs @ [r]))"

subsection \<open>Uploads\<close>

text \<open>\<^verbatim>\<open>'.' in filename and filename.rsplit('.', 1)[1].lower() in {'jpg', 'jpeg', 'png'}\<close>\<close>

definition extension :: "string \<Rightarrow> string" where
  "extension name = rev (takeWhile (\<lambda>c. c \<noteq> CHR ''.'') (rev name))"

definition allowed_file :: "string \<Rightarrow> bool" where
  "allowed_file name =
     (CHR ''.'' \<in> set name \<and> lower (extension name) \<in> set [''jpg'', ''jpeg'', ''png''])"

text \<open>\<^verbatim>\<open>file and allowed_file(file.filename)\<close>: an upload without a name is falsy.\<close>

definition valid_upload :: "upload \<Rightarrow> bool" where
  "valid_upload f = (filename f \<noteq> [] \<and> allowed_file (filename f))"

text \<open>\<^verbatim>\<open>secure_filename(f"{datetime.now().timestamp()}_{file.filename}")\<close>\<close>

definition stored_name :: "env \<Rightarrow> upload \<Rightarrow> string" where
  "stored_name e f = secure_filename e (timestamp e @ ''_'' @ filename f)"

text \<open>
  \<^verbatim>\<open>save_optimized_image\<close>: the re-encoded image is written under the upload folder,
  over any file of that name; nothing is written when Pillow raises.
\<close>

definition save_optimized_image :: "env \<Rightarrow> upload \<Rightarrow> string \<Rightarrow> (path \<rightharpoonup> bytes) \<Rightarrow> (path \<rightharpoonup> bytes) option" where
  "save_optimized_image e f name files_on_disk =
     (case pil_save e (content f) of
        None \<Rightarrow> None
      | Some img \<Rightarrow> Some (files_on_disk(ImageFile name \<mapsto> img)))"

subsection \<open>Creating a roll: \<^verbatim>\<open>add_roll\<close>\<close>

text \<open>\<^verbatim>\<open>int(iso_input) if iso_input else None\<close>; the \<^verbatim>\<open>ValueError\<close> is not caught.\<close>

definition parse_iso :: "string option \<Rightarrow> exn + int option" where
  "parse_iso v =
     (case v of
        None \<Rightarrow> Inr None
      | Some s \<Rightarrow>
          if s = [] then Inr None
          else (case py_int s of None \<Rightarrow> Inl ValueError | Some n \<Rightarrow> Inr (Some n)))"

text \<open>The \<^verbatim>\<open>parse_date\<close> of \<^verbatim>\<open>add_roll\<close> catches the \<^verbatim>\<open>ValueError\<close> and returns \<^verbatim>\<open>None\<close>.\<close>

definition parse_date_add :: "string option \<Rightarrow> date option" where
  "parse_date_add v =
     (case v of
        None \<Rightarrow> None
      | Some s \<Rightarrow> if s = [] then None else (case strptime_ymd s of None \<Rightarrow> None | Some d \<Rightarrow> Some d))"

text \<open>
  \<^verbatim>\<open>try: custom_id = int(request.form.get('roll_id'))\<close>,
  \<^verbatim>\<open>except (ValueError, TypeError): custom_id = next_id\<close>
\<close>

definition custom_id :: "request \<Rightarrow> roll list \<Rightarrow> int" where
  "custom_id req rs =
     (case form req ''roll_id'' of
        None \<Rightarrow> next_id rs
      | Some s \<Rightarrow> (case py_int s of None \<Rightarrow> next_id rs | Some n \<Rightarrow> n))"

text \<open>\<^verbatim>\<open>new_roll = Roll(id=custom_id, film_type=film_type, ..., contact_sheet=filename)\<close>\<close>

definition new_roll ::
  "env \<Rightarrow> request \<Rightarrow> int \<Rightarrow> string \<Rightarrow> string \<Rightarrow> string \<Rightarrow> int option \<Rightarrow> string option \<Rightarrow> roll" where
  "new_roll e req cid film cam nt iso_v fname =
     \<lparr>rid = cid, film_type = film, iso = iso_v, camera = Some cam,
      lens = form req ''lens'',
      date_started = parse_date_add (form req ''date_started''),
      date_finished = parse_date_add (form req ''date_finished''),
      date_added = utcnow e, contact_sheet = fname, roll_notes = Some nt\<rparr>"

definition add_roll :: "env \<Rightarrow> request \<Rightarrow> world \<Rightarrow> response \<times> world" where
  "add_roll e req w =
     (let nid = next_id (rolls w) in
      if req_method req = POST then
        (let cid = custom_id req (rolls w)
         in
         if query_get (rolls w) cid \<noteq> None then
           (RenderAddRoll (Some (AlreadyExists cid)) nid, w)
         else
           (case form req ''film_type'' of None \<Rightarrow> (BadRequest, w) | Some film \<Rightarrow>
           (case form req ''camera'' of None \<Rightarrow> (BadRequest, w) | Some cam \<Rightarrow>
           (case form req ''notes'' of None \<Rightarrow> (BadRequest, w) | Some nt \<Rightarrow>
           (case parse_iso (form req ''iso'') of Inl x \<Rightarrow> (ServerError x, w) | Inr iso_v \<Rightarrow>
           (case files req ''contact_sheet'' of None \<Rightarrow> (BadRequest, w) | Some f \<Rightarrow>
           (case (if valid_upload f then
                    (case save_optimized_image e f (stored_name e f) (fs w) of
                       None \<Rightarrow> Inl ImageError
                     | Some fs' \<Rightarrow> Inr (Some (stored_name e f), fs'))
                  else Inr (None, fs w)) of
              Inl x \<Rightarrow> (ServerError x, w)
            | Inr (fname, fs') \<Rightarrow>
                (case insert_roll (new_roll e req cid film cam nt iso_v fname) (rolls w) of
                   Some rs' \<Rightarrow> (Redirect ''index'', w\<lparr>rolls := rs', fs := fs'\<rparr>)
                 | None \<Rightarrow> (RenderAddRoll (Some DatabaseError) cid, w\<lparr>fs := fs'\<rparr>)))))))))
      else (RenderAddRoll None nid, w))"

subsection \<open>Editing and deleting a roll\<close>

text \<open>The \<^verbatim>\<open>parse_date\<close> of \<^verbatim>\<open>edit_roll\<close> lets the \<^verbatim>\<open>ValueError\<close> escape.\<close>

definition parse_date_edit :: "string option \<Rightarrow> exn + date option" where
  "parse_date_edit v =
     (case v of
        None \<Rightarrow> Inr None
      | Some s \<Rightarrow>
          if s = [] then Inr None
          else (case strptime_ymd s of None \<Rightarrow> Inl ValueError | Some d \<Rightarrow> Inr (Some d)))"

text \<open>\<^verbatim>\<open>db.session.commit()\<close> of a changed row: the row of that id is replaced.\<close>

definition update_roll :: "roll \<Rightarrow> roll list \<Rightarrow> roll list" where
  "update_roll r rs = map (\<lambda>x. if rid x = rid r then r else x) rs"

text \<open>
  The assignments \<^verbatim>\<open>roll.film_type = ...\<close> to \<^verbatim>\<open>roll.date_finished = ...\<close> of
  \<^verbatim>\<open>edit_roll\<close>; \<^verbatim>\<open>id\<close>, \<^verbatim>\<open>date_added\<close> and \<^verbatim>\<open>contact_sheet\<close> are not among them.
\<close>

definition assign_fields ::
  "roll \<Rightarrow> string \<Rightarrow> string \<Rightarrow> string option \<Rightarrow> string \<Rightarrow> int option \<Rightarrow> date option \<Rightarrow> date option \<Rightarrow> roll" where
  "assign_fields r film cam lens_v nt iso_v ds df =
     r\<lparr>film_type := film, camera := Some cam, lens := lens_v, roll_notes := Some nt,
       iso := iso_v, date_started := ds, date_finished := df\<rparr>"

definition edit_roll :: "env \<Rightarrow> int \<Rightarrow> request \<Rightarrow> world \<Rightarrow> response \<times> world" where
  "edit_roll e roll_id req w =
     (case query_get (rolls w) roll_id of
        None \<Rightarrow> (NotFound, w)
      | Some r \<Rightarrow>
          if req_method req = POST then
            (case form req ''film_type'' of None \<Rightarrow> (BadRequest, w) | Some film \<Rightarrow>
            (case form req ''camera'' of None \<Rightarrow> (BadRequest, w) | Some cam \<Rightarrow>
            (case form req ''notes'' of None \<Rightarrow> (BadRequest, w) | Some nt \<Rightarrow>
            (case parse_iso (form req ''iso'') of Inl x \<Rightarrow> (ServerError x, w) | Inr iso_v \<Rightarrow>
            (case parse_date_edit (form req ''date_started'') of Inl x \<Rightarrow> (ServerError x, w) | Inr ds \<Rightarrow>
            (case parse_date_edit (form req ''date_finished'') of Inl x \<Rightarrow> (ServerError x, w) | Inr df \<Rightarrow>
            (case files req ''contact_sheet'' of None \<Rightarrow> (BadRequest, w) | Some f \<Rightarrow>
              (let r1 = assign_fields r film cam (form req ''lens'') nt iso_v ds df
               in
               if valid_upload f then
                 (case save_optimized_image e f (stored_name e f) (fs w) of
                    None \<Rightarrow> (ServerError ImageError, w)
                  | Some fs' \<Rightarrow>
                      (Redirect ''roll_detail'',
                       w\<lparr>rolls := update_roll (r1\<lparr>contact_sheet := Some (stored_name e f)\<rparr>) (rolls w),
                         fs := fs'\<rparr>))
               else (Redirect ''roll_detail'', w\<lparr>rolls := update_roll r1 (rolls w)\<rparr>)))))))))
          else (RenderEditRoll r, w))"


subsection \<open>Feature flags\<close>

text \<open>
  \<^verbatim>\<open>toggle_feature\<close>: a missing key is created with the value \<^verbatim>\<open>'true'\<close>; the value
  \<^verbatim>\<open>'true'\<close> becomes \<^verbatim>\<open>'false'\<close>, every other value becomes \<^verbatim>\<open>'true'\<close>.
\<close>

definition toggle_feature :: "string \<Rightarrow> world \<Rightarrow> response \<times> world" where
  "toggle_feature feature_key w =
     (case settings w feature_key of
        None \<Rightarrow>
          (Redirect ''preferences'', w\<lparr>settings := (settings w)(feature_key \<mapsto> Some ''true'')\<rparr>)
      | Some v \<Rightarrow>
          if v = Some ''true'' then
            (Redirect ''preferences'', w\<lparr>settings := (settings w)(feature_key \<mapsto> Some ''false'')\<rparr>)
          else
            (Redirect ''preferences'', w\<lparr>settings := (settings w)(feature_key \<mapsto> Some ''true'')\<rparr>))"

text \<open>
  The read of a flag, as \<^verbatim>\<open>inject_globals\<close> and \<^verbatim>\<open>gear_index\<close> do it for
  \<^verbatim>\<open>enable_gearlog\<close>: \<^verbatim>\<open>setting.value == 'true' if setting else False\<close>.
\<close>

definition flag_enabled :: "string \<Rightarrow> world \<Rightarrow> bool" where
  "flag_enabled k w = (case settings w k of None \<Rightarrow> False | Some v \<Rightarrow> v = Some ''true'')"

definition gear_enabled :: "world \<Rightarrow> bool" where
  "gear_enabled w = flag_enabled ''enable_gearlog'' w"

subsection \<open>Searching: \<^verbatim>\<open>index\<close>\<close>

text \<open>
  \<^verbatim>\<open>Roll.film_type.contains(q)\<close> is the SQL condition
  \<^verbatim>\<open>film_type LIKE '%' || q || '%'\<close>, with no escape character. In SQLite's \<^verbatim>\<open>LIKE\<close>
  a \<^verbatim>\<open>%\<close> of the pattern matches any run of characters, a \<^verbatim>\<open>_\<close> matches any one
  character, and every other character matches itself, ASCII letters without regard
  to case. A \<^verbatim>\<open>NULL\<close> column matches nothing.
\<close>

fun like :: "string \<Rightarrow> string \<Rightarrow> bool" where
  "like [] s = (s = [])"
| "like (p # ps) [] = (p = CHR ''%'' \<and> like ps [])"
| "like (p # ps) (c # cs) =
     (if p = CHR ''%'' then like ps (c # cs) \<or> like (p # ps) cs
      else (p = CHR ''_'' \<or> to_lower p = to_lower c) \<and> like ps cs)"

definition contains :: "string option \<Rightarrow> string \<Rightarrow> bool" where
  "contains column q = (case column of None \<Rightarrow> False | Some v \<Rightarrow> like (CHR ''%'' # q @ ''%'') v)"

text \<open>\<^verbatim>\<open>Roll.query.order_by(Roll.id.desc()).limit(5).all()\<close>\<close>

definition recent_rolls :: "roll list \<Rightarrow> roll list" where
  "recent_rolls rs = take 5 (rev (sort_key rid rs))"

text \<open>
  The rows that \<^verbatim>\<open>index\<close> passes to its template; \<open>Inl\<close> is an exception that the
  handler does not catch.
\<close>

text \<open>\<^verbatim>\<open>(Roll.film_type.contains(search_query)) | (Roll.camera.contains(search_query))\<close>\<close>

definition name_matches :: "string \<Rightarrow> roll \<Rightarrow> bool" where
  "name_matches search_query r =
     (contains (Some (film_type r)) search_query \<or> contains (camera r) search_query)"

definition search_results :: "string \<Rightarrow> roll list \<Rightarrow> exn + roll list" where
  "search_results search_query rs =
     (if search_query \<noteq> [] then
        (if isdigit search_query then
           (case py_int search_query of
              None \<Rightarrow> Inl ValueError
            | Some n \<Rightarrow> Inr (filter (\<lambda>r. rid r = n) rs))
         else
           Inr (filter (name_matches search_query) rs))
      else Inr (recent_rolls rs))"

definition index :: "request \<Rightarrow> world \<Rightarrow> response \<times> world" where
  "index req w =
     (let search_query = (case args req ''q'' of None \<Rightarrow> [] | Some s \<Rightarrow> s) in
      case search_results search_query (rolls w) of
        Inl x \<Rightarrow> (ServerError x, w)
      | Inr results \<Rightarrow> (RenderIndex results search_query, w))"

subsection \<open>Restoring a backup: \<^verbatim>\<open>import_backup\<close>\<close>

text \<open>
  \<^verbatim>\<open>os.path.basename\<close>: what follows the last separator, \<^verbatim>\<open>/\<close> with \<^verbatim>\<open>posixpath\<close>,
  \<^verbatim>\<open>/\<close> or the backslash with \<^verbatim>\<open>ntpath\<close>. It is applied only to names that start with
  \<^verbatim>\<open>Images/\<close>, which have no drive part.
\<close>

definition is_sep :: "platform \<Rightarrow> char \<Rightarrow> bool" where
  "is_sep pf c = (c = CHR ''/'' \<or> (pf = Windows \<and> c = CHR 0x5C))"

definition basename :: "platform \<Rightarrow> string \<Rightarrow> string" where
  "basename pf p = rev (takeWhile (\<lambda>c. \<not> is_sep pf c) (rev p))"

text \<open>\<^verbatim>\<open>z.read(member)\<close>: the content of the last entry of that name.\<close>

definition zread :: "archive \<Rightarrow> string \<Rightarrow> bytes option" where
  "zread z member = map_of (rev z) member"

text \<open>
  Where an entry goes: \<open>None\<close> for an entry that is skipped (the \<^verbatim>\<open>continue\<close> of the
  path check) or ignored (\<^verbatim>\<open>target_path\<close> stays \<^verbatim>\<open>None\<close>).
\<close>

definition member_target :: "platform \<Rightarrow> string \<Rightarrow> path option" where
  "member_target pf member =
     (if sublist ''..'' member \<or> prefix ''/'' member \<or> prefix [CHR 0x5C] member then None
      else if member \<in> set [''filmlog.db'', ''gearlog.db''] then Some (DataFile member)
      else if prefix ''Images/'' member then
        (let name = basename pf member in if name \<noteq> [] then Some (ImageFile name) else None)
      else None)"

text \<open>One round of the loop; \<open>None\<close> when \<^verbatim>\<open>z.read\<close> raises.\<close>

definition extract_member :: "platform \<Rightarrow> archive \<Rightarrow> string \<Rightarrow> (path \<rightharpoonup> bytes) \<Rightarrow> (path \<rightharpoonup> bytes) option" where
  "extract_member pf z member disk =
     (case member_target pf member of
        None \<Rightarrow> Some disk
      | Some target \<Rightarrow>
          (case zread z member of None \<Rightarrow> None | Some b \<Rightarrow> Some (disk(target \<mapsto> b))))"

text \<open>The loop over \<^verbatim>\<open>z.namelist()\<close>; what was written before an exception stays.\<close>

fun extract_members :: "platform \<Rightarrow> archive \<Rightarrow> string list \<Rightarrow> (path \<rightharpoonup> bytes) \<Rightarrow> bool \<times> (path \<rightharpoonup> bytes)" where
  "extract_members pf z [] disk = (True, disk)"
| "extract_members pf z (member # ms) disk =
     (case extract_member pf z member disk of
        None \<Rightarrow> (False, disk)
      | Some disk' \<Rightarrow> extract_members pf z ms disk')"

text \<open>
  The handler. The tables are not re-read from the restored database files: the
  source asks for a restart instead.
\<close>

definition import_backup :: "env \<Rightarrow> request \<Rightarrow> world \<Rightarrow> response \<times> world" where
  "import_backup e req w =
     (case files req ''backup_file'' of
        None \<Rightarrow> (BadRequest, w)
      | Some f \<Rightarrow>
          if filename f = [] \<or> \<not> suffix ''.zip'' (filename f) then (Redirect ''preferences'', w)
          else
            (case unzip e (content f) of
               None \<Rightarrow> (ErrorText, w)
             | Some z \<Rightarrow>
                 (case extract_members (os_name e) z (map fst z) (fs w) of
                    (True, disk) \<Rightarrow> (Redirect ''preferences'', w\<lparr>fs := disk\<rparr>)
                  | (False, disk) \<Rightarrow> (ErrorText, w\<lparr>fs := disk\<rparr>))))"

subsection \<open>Label sheets: \<^verbatim>\<open>generate_labels\<close>\<close>


definition COLUMNS :: nat where "COLUMNS = 5"
definition ROWS :: nat where "ROWS = 13"

text \<open>
  What is drawn for one label: the text, the barcode payload, and the origin of the
  cell in millimetres from the lower left corner of the A4 page (297 mm high):
  \<^verbatim>\<open>x = MARGIN_X + col * (LABEL_WIDTH + GAP_X)\<close> and
  \<^verbatim>\<open>y = height - MARGIN_Y - (row + 1) * (LABEL_HEIGHT + GAP_Y)\<close>. The centring of text
  and barcode inside the cell is floating-point and is left out.
\<close>

record label =
  label_text :: string
  barcode :: string
  col :: nat
  row :: nat
  x_mm :: int
  y_mm :: int

text \<open>
  The canvas: the pages closed so far and what is drawn on the open page.
  \<^verbatim>\<open>showPage\<close> closes the open page; \<^verbatim>\<open>save\<close> closes it when something is drawn on it.
\<close>

record canvas =
  pages :: "label list list"
  code :: "label list"

definition new_canvas :: canvas where
  "new_canvas = \<lparr>pages = [], code = []\<rparr>"

definition showPage :: "canvas \<Rightarrow> canvas" where
  "showPage c = \<lparr>pages = pages c @ [code c], code = []\<rparr>"

definition draw :: "label \<Rightarrow> canvas \<Rightarrow> canvas" where
  "draw l c = c\<lparr>code := code c @ [l]\<rparr>"

definition save :: "canvas \<Rightarrow> canvas" where
  "save c = (if code c \<noteq> [] then showPage c else c)"

definition make_label :: "int \<Rightarrow> nat \<Rightarrow> label" where
  "make_label current_num i =
     (let c = i mod COLUMNS;
          r = (i div COLUMNS) mod ROWS;
          roll_id_str = fmt04 current_num
      in \<lparr>label_text = ''ROLL #'' @ roll_id_str, barcode = roll_id_str, col = c, row = r,
          x_mm = 10 + int c * (38 + 2),
          y_mm = 297 - 12 - (int r + 1) * (21 + 0)\<rparr>)"

text \<open>The body of \<^verbatim>\<open>for i in range(count)\<close> on the pair of \<^verbatim>\<open>current_num\<close> and the canvas.\<close>

definition label_step :: "nat \<Rightarrow> int \<times> canvas \<Rightarrow> int \<times> canvas" where
  "label_step i st =
     (case st of (current_num, c) \<Rightarrow>
        (let c1 = (if i > 0 \<and> i mod (COLUMNS * ROWS) = 0 then showPage c else c)
         in (current_num + 1, draw (make_label current_num i) c1)))"

definition str_int :: "int \<Rightarrow> string" where
  "str_int n = (if n < 0 then CHR ''-'' # dec (nat (- n)) else dec (nat n))"

text \<open>The pages of the document that is sent, and its download name.\<close>

definition render_labels :: "int \<Rightarrow> int \<Rightarrow> label list list \<times> string" where
  "render_labels start_num count =
     (case fold label_step [0..<nat count] (start_num, new_canvas) of
        (current_num, c) \<Rightarrow>
          (pages (save c),
           ''labels_'' @ str_int start_num @ ''_to_'' @ str_int (current_num - 1) @ ''.pdf''))"


subsection \<open>Sequences of requests\<close>




subsection \<open>Describing the label document\<close>

text \<open>
  The label of index \<open>i\<close> in a run that starts at \<open>start_num\<close>, and the labels that a
  document of \<open>n\<close> labels is expected to show on its page \<open>p\<close> (pages counted from 0)
  when every page holds 65.
\<close>

definition nth_label :: "int \<Rightarrow> nat \<Rightarrow> label" where
  "nth_label start_num i = make_label (start_num + int i) i"

definition sheet :: "int \<Rightarrow> nat \<Rightarrow> nat \<Rightarrow> label list" where
  "sheet start_num n p = map (nth_label start_num) [65 * p..<min (65 * p + 65) n]"

subsection \<open>Example data\<close>

text \<open>A small state and a few requests, at which the theorems below are instantiated.\<close>

definition example_env :: env where
  "example_env = \<lparr>os_name = Posix, timestamp = ''1700000000.5'', utcnow = 1700000000,
                   pil_save = (\<lambda>b. Some b), secure_filename = (\<lambda>s. s), unzip = (\<lambda>b. None)\<rparr>"

definition example_roll :: roll where
  "example_roll = \<lparr>rid = 1, film_type = ''Portra 400'', iso = Some 400, camera = Some ''Leica M6'',
                    lens = None, date_started = None, date_finished = None, date_added = 0,
                    contact_sheet = Some ''sheet.jpg'', roll_notes = Some []\<rparr>"

definition example_world :: world where
  "example_world = \<lparr>rolls = [example_roll], settings = Map.empty,
                     fs = [ImageFile ''sheet.jpg'' \<mapsto> ''JPEG'']\<rparr>"

definition example_post :: request where
  "example_post = \<lparr>req_method = POST, args = Map.empty,
      form = [''roll_id'' \<mapsto> ''0001'', ''film_type'' \<mapsto> ''HP5'', ''camera'' \<mapsto> ''Nikon F3'',
              ''notes'' \<mapsto> [], ''iso'' \<mapsto> ''400''],
      files = [''contact_sheet'' \<mapsto> \<lparr>filename = [], content = []\<rparr>]\<rparr>"


definition no_upload :: upload where
  "no_upload = \<lparr>filename = [], content = []\<rparr>"




definition example_bad_date_post :: request where
  "example_bad_date_post = \<lparr>req_method = POST, args = Map.empty,
      form = [''roll_id'' \<mapsto> ''2'', ''film_type'' \<mapsto> ''HP5'', ''camera'' \<mapsto> ''Nikon F3'',
              ''notes'' \<mapsto> [], ''date_started'' \<mapsto> ''13/01/2024''],
      files = [''contact_sheet'' \<mapsto> no_upload]\<rparr>"






section \<open>Properties\<close>

subsection \<open>Auxiliary facts\<close>

lemma query_get_None_iff: "query_get rs i = None \<longleftrightarrow> i \<notin> rid ` set rs"
  by (auto simp: query_get_def find_None_iff)

subsection \<open>Facts about \<^verbatim>\<open>add_roll\<close>\<close>

lemma add_roll_request_cong:
  assumes "req_method req' = req_method req" and "files req' = files req"
    and "form req' ''roll_id'' = form req ''roll_id''"
    and "form req' ''film_type'' = form req ''film_type''"
    and "form req' ''camera'' = form req ''camera''"
    and "form req' ''notes'' = form req ''notes''"
    and "form req' ''iso'' = form req ''iso''"
    and "form req' ''lens'' = form req ''lens''"
    and "parse_date_add (form req' ''date_started'') = parse_date_add (form req ''date_started'')"
    and "parse_date_add (form req' ''date_finished'') = parse_date_add (form req ''date_finished'')"
  shows "add_roll e req' w = add_roll e req w"
  unfolding add_roll_def new_roll_def custom_id_def Let_def
  by (simp only: assms)



lemma py_int_2: "py_int ''2'' = Some 2"
  by (simp add: py_int_def strip_def is_space_def py_digits_def is_digit_def digit_val_def)


lemma add_roll_redirect:
  "fst (add_roll e req w) = Redirect ''index'' \<longrightarrow>
     (\<exists>r. rolls (snd (add_roll e req w)) = rolls w @ [r]
          \<and> rid r = custom_id req (rolls w)
          \<and> rid r \<notin> rid ` set (rolls w)
          \<and> date_started r = parse_date_add (form req ''date_started'')
          \<and> date_finished r = parse_date_add (form req ''date_finished''))"
  by (simp add: add_roll_def new_roll_def Let_def insert_roll_def query_get_None_iff
           split: option.splits sum.splits prod.splits)


subsection \<open>Ids in the Roll table\<close>











subsection \<open>Facts about \<^verbatim>\<open>edit_roll\<close>\<close>








lemma edit_roll_bad_date_escapes:
  assumes "query_get (rolls w) roll_id = Some r" and "req_method req = POST"
    and "form req ''film_type'' = Some film" and "form req ''camera'' = Some cam"
    and "form req ''notes'' = Some nt" and "parse_iso (form req ''iso'') = Inr iso_v"
    and "form req ''date_started'' = Some s" and "s \<noteq> []" and "strptime_ymd s = None"
  shows "edit_roll e roll_id req w = (ServerError ValueError, w)"
  using assms by (simp add: edit_roll_def assign_fields_def parse_date_edit_def)

subsection \<open>Facts about the import\<close>






subsection \<open>Facts about the search\<close>














subsection \<open>The loop of the label generator\<close>

lemma page_arith_le: "P * ((n - 1) div P) \<le> (n::nat)"
proof -
  have "P * ((n - 1) div P) \<le> n - 1" by simp
  also have "n - 1 \<le> n" by simp
  finally show ?thesis .
qed

lemma page_arith_same:
  assumes "0 < P" and "\<not> (0 < n \<and> n mod P = 0)"
  shows "n div P = (n - 1) div (P::nat)"
proof (cases "n = 0")
  case True
  then show ?thesis by simp
next
  case False
  with assms have r: "0 < n mod P" by simp
  have "n - 1 = (n mod P - 1) + (n div P) * P"
    using r by (simp add: algebra_simps)
  then have "(n - 1) div P = ((n mod P - 1) + (n div P) * P) div P" by simp
  also have "\<dots> = (n mod P - 1) div P + n div P" by (simp add: assms(1))
  also have "(n mod P - 1) div P = 0"
    using assms(1) by (simp add: less_imp_diff_less)
  finally show ?thesis by simp
qed

lemma page_arith_break:
  assumes "0 < P" and "0 < n" and "n mod P = 0"
  shows "n div P = Suc ((n - 1) div P) \<and> P * ((n - 1) div P) + P = (n::nat)"
proof -
  from assms(3) obtain q where q: "n = P * q" by auto
  with assms(2) have "0 < q" by (cases q) auto
  then obtain q' where q': "q = Suc q'" by (cases q) auto
  have "n - 1 = (P - 1) + q' * P" using q q' assms(1) by (simp add: algebra_simps)
  then have "(n - 1) div P = ((P - 1) + q' * P) div P" by simp
  also have "\<dots> = (P - 1) div P + q'" by (simp add: assms(1))
  also have "(P - 1) div P = 0" using assms(1) by simp
  finally have d: "(n - 1) div P = q'" by simp
  have "n div P = q" using q assms(1) by simp
  then show ?thesis using d q q' by simp
qed

lemma label_step_break:
  "0 < i \<Longrightarrow> i mod 65 = 0 \<Longrightarrow>
   label_step i (m, c) = (m + 1, \<lparr>pages = pages c @ [code c], code = [make_label m i]\<rparr>)"
  by (simp add: label_step_def COLUMNS_def ROWS_def showPage_def draw_def)

lemma label_step_same:
  "\<not> (0 < i \<and> i mod 65 = 0) \<Longrightarrow>
   label_step i (m, c) = (m + 1, \<lparr>pages = pages c, code = code c @ [make_label m i]\<rparr>)"
  by (auto simp add: label_step_def COLUMNS_def ROWS_def showPage_def draw_def)

lemma label_loop_invariant:
  "fold label_step [0..<n] (start_num, new_canvas) =
     (start_num + int n,
      \<lparr>pages = map (\<lambda>p. map (nth_label start_num) [65 * p..<65 * p + 65]) [0..<(n - 1) div 65],
       code = map (nth_label start_num) [65 * ((n - 1) div 65)..<n]\<rparr>)"
proof (induction n)
  case 0
  show ?case by (simp add: new_canvas_def)
next
  case (Suc n)
  let ?k = "(n - 1) div 65"
  let ?f = "\<lambda>p. map (nth_label start_num) [65 * p..<65 * p + 65]"
  let ?c = "\<lparr>pages = map ?f [0..<?k], code = map (nth_label start_num) [65 * ?k..<n]\<rparr>"
  have "fold label_step [0..<Suc n] (start_num, new_canvas)
          = label_step n (fold label_step [0..<n] (start_num, new_canvas))"
    by simp
  then have step: "fold label_step [0..<Suc n] (start_num, new_canvas)
                = label_step n (start_num + int n, ?c)"
    by (simp only: Suc.IH)
  have k': "(Suc n - 1) div 65 = n div 65" by simp
  show ?case
  proof (cases "0 < n \<and> n mod 65 = 0")
    case True
    then have k: "n div 65 = Suc ?k" and full: "65 * ?k + 65 = n"
      using page_arith_break [of 65 n] by simp_all
    have a: "label_step n (start_num + int n, ?c)
               = (start_num + int n + 1,
                  \<lparr>pages = map ?f [0..<?k] @ [map (nth_label start_num) [65 * ?k..<n]],
                   code = [make_label (start_num + int n) n]\<rparr>)"
      using True by (simp add: label_step_break)
    have b: "map ?f [0..<?k] @ [map (nth_label start_num) [65 * ?k..<n]] = map ?f [0..<Suc ?k]"
      using full by simp
    have "65 * Suc ?k = n" using full by simp
    then have c: "[make_label (start_num + int n) n] = map (nth_label start_num) [65 * Suc ?k..<Suc n]"
      by (simp add: nth_label_def)
    show ?thesis
      unfolding step a k' k b c by simp
  next
    case False
    then have k: "n div 65 = ?k" using page_arith_same [of 65 n] by simp
    have a: "label_step n (start_num + int n, ?c)
               = (start_num + int n + 1,
                  \<lparr>pages = map ?f [0..<?k],
                   code = map (nth_label start_num) [65 * ?k..<n] @ [make_label (start_num + int n) n]\<rparr>)"
      using False by (simp add: label_step_same)
    have "65 * ?k \<le> n" by (rule page_arith_le)
    then have c: "map (nth_label start_num) [65 * ?k..<n] @ [make_label (start_num + int n) n]
                    = map (nth_label start_num) [65 * ?k..<Suc n]"
      by (simp add: nth_label_def)
    show ?thesis
      unfolding step a k' k c by simp
  qed
qed


lemma sheet_count: "0 < n \<Longrightarrow> (n + 64) div 65 = Suc ((n - 1) div (65::nat))"
proof -
  assume "0 < n"
  then have "n + 64 = (n - 1) + 65" by simp
  then have "(n + 64) div 65 = ((n - 1) + 65) div 65" by simp
  then show ?thesis by simp
qed

lemma last_sheet_bounds:
  assumes "0 < (n::nat)"
  shows "65 * ((n - 1) div 65) < n" and "n \<le> 65 * ((n - 1) div 65) + 65"
proof -
  have "65 * ((n - 1) div 65) \<le> n - 1" by simp
  with assms show "65 * ((n - 1) div 65) < n" by simp
  have "n - 1 = 65 * ((n - 1) div 65) + (n - 1) mod 65" by simp
  moreover have "(n - 1) mod 65 < 65" by simp
  ultimately have "n - 1 < 65 * ((n - 1) div 65) + 65" by linarith
  then show "n \<le> 65 * ((n - 1) div 65) + 65" by simp
qed

lemma full_sheet_bound:
  assumes "p < (n - 1) div 65"
  shows "65 * p + 65 \<le> (n::nat)"
proof -
  from assms have "Suc p \<le> (n - 1) div 65" by simp
  then have "65 * Suc p \<le> 65 * ((n - 1) div 65)" by (rule mult_le_mono2)
  also have "\<dots> \<le> n" by (rule page_arith_le)
  finally show ?thesis by simp
qed

lemma render_labels_pages:
  "fst (render_labels start_num count)
     = map (sheet start_num (nat count)) [0..<(nat count + 64) div 65]"
proof (cases "nat count = 0")
  case True
  then show ?thesis
    by (simp add: render_labels_def new_canvas_def save_def)
next
  case False
  let ?n = "nat count"
  let ?k = "(?n - 1) div 65"
  let ?L = "nth_label start_num"
  from False have pos: "0 < ?n" by simp
  have nonempty: "map ?L [65 * ?k..<?n] \<noteq> []"
    using last_sheet_bounds(1) [OF pos] by simp
  have "fst (render_labels start_num count)
          = map (\<lambda>p. map ?L [65 * p..<65 * p + 65]) [0..<?k] @ [map ?L [65 * ?k..<?n]]"
    using nonempty
    by (simp add: render_labels_def label_loop_invariant save_def showPage_def del: upt_Suc)
  also have "map (\<lambda>p. map ?L [65 * p..<65 * p + 65]) [0..<?k] = map (sheet start_num ?n) [0..<?k]"
  proof (rule map_cong [OF refl])
    fix p assume "p \<in> set [0..<?k]"
    then have "65 * p + 65 \<le> ?n" using full_sheet_bound [of p ?n] by simp
    then show "map ?L [65 * p..<65 * p + 65] = sheet start_num ?n p"
      by (simp add: sheet_def min_def)
  qed
  also have "map ?L [65 * ?k..<?n] = sheet start_num ?n ?k"
    using last_sheet_bounds(2) [OF pos] by (simp add: sheet_def min_def)
  also have "map (sheet start_num ?n) [0..<?k] @ [sheet start_num ?n ?k]
               = map (sheet start_num ?n) [0..<Suc ?k]" by simp
  finally show ?thesis by (simp only: sheet_count [OF pos])
qed

lemma label_position:
  assumes "i < nat count"
  shows "fst (render_labels start_num count) ! (i div 65) ! (i mod 65) = nth_label start_num i"
proof -
  define n where "n = nat count"
  define a where "a = 65 * (i div 65)"
  define r where "r = i mod 65"
  have i: "a + r = i" and r: "r < 65" by (simp_all add: a_def r_def)
  have n: "i < n" using assms by (simp add: n_def)
  have "i div 65 \<le> (n - 1) div 65" using n by (intro div_le_mono) simp
  then have p: "i div 65 < (n + 64) div 65"
    using n by (simp add: sheet_count)
  have "fst (render_labels start_num count) ! (i div 65) = sheet start_num n (i div 65)"
    unfolding render_labels_pages n_def [symmetric] using p by (simp del: upt_Suc)
  also have "\<dots> = map (nth_label start_num) [a..<min (a + 65) n]"
    by (simp add: sheet_def a_def)
  finally have page: "fst (render_labels start_num count) ! (i div 65)
                        = map (nth_label start_num) [a..<min (a + 65) n]" .
  have lt: "a + r < min (a + 65) n" using i r n by simp
  then have "r < length [a..<min (a + 65) n]" by (auto simp: min_def)
  then have "map (nth_label start_num) [a..<min (a + 65) n] ! r = nth_label start_num ([a..<min (a + 65) n] ! r)"
    by (rule nth_map)
  also have "[a..<min (a + 65) n] ! r = a + r" using lt by (rule nth_upt)
  finally show ?thesis using page i by (simp add: r_def)
qed

lemma label_66: "nth_label 1 65 = \<lparr>label_text = ''ROLL #0066'', barcode = ''0066'', col = 0, row = 0, x_mm = 10, y_mm = 264\<rparr>"
  by code_simp


subsection \<open>Creating a roll with a taken id\<close>

text \<open>
  Claim C1. A create-roll request that supplies an id already present in the Roll
  table leaves the whole state unchanged, the Roll table included, and answers with
  the add form re-rendered with the duplicate-id message, not with a redirect.
\<close>

theorem add_roll_duplicate_id:
  assumes "req_method req = POST" and "form req ''roll_id'' = Some s" and "py_int s = Some n"
    and "n \<in> rid ` set (rolls w)"
  shows "add_roll e req w = (RenderAddRoll (Some (AlreadyExists n)) (next_id (rolls w)), w)"
  using assms by (simp add: add_roll_def new_roll_def custom_id_def Let_def query_get_None_iff)

theorem add_roll_duplicate_id_witness:
  "req_method example_post = POST \<and> form example_post ''roll_id'' = Some ''0001''
   \<and> py_int ''0001'' = Some 1 \<and> 1 \<in> rid ` set (rolls example_world)
   \<and> add_roll example_env example_post example_world
       = (RenderAddRoll (Some (AlreadyExists 1)) 2, example_world)"
proof -
  have a: "req_method example_post = POST" by (simp add: example_post_def)
  have b: "form example_post ''roll_id'' = Some ''0001''" by (simp add: example_post_def)
  have c: "py_int ''0001'' = Some 1"
    by (simp add: py_int_def strip_def is_space_def py_digits_def is_digit_def digit_val_def)
  have d: "1 \<in> rid ` set (rolls example_world)"
    by (simp add: example_world_def example_roll_def)
  have n: "next_id (rolls example_world) = 2"
    by (simp add: example_world_def example_roll_def next_id_def)
  from add_roll_duplicate_id [OF a b c d, of example_env] a b c d n show ?thesis by simp
qed

subsection \<open>Toggling a feature flag\<close>

text \<open>
  Claim C6. For every key and every state, two toggles leave the boolean read of the
  flag (value equal to \<^verbatim>\<open>'true'\<close>, false when the key is absent) as it was before the
  first; one toggle of an absent key creates it with the value \<^verbatim>\<open>'true'\<close>.
\<close>

theorem toggle_feature_twice:
  "flag_enabled k (snd (toggle_feature k (snd (toggle_feature k w)))) = flag_enabled k w
   \<and> (settings w k = None \<longrightarrow> settings (snd (toggle_feature k w)) k = Some (Some ''true''))"
  by (auto simp: toggle_feature_def flag_enabled_def split: option.splits)

theorem toggle_feature_twice_witness:
  "settings example_world ''enable_gearlog'' = None
   \<and> settings (snd (toggle_feature ''enable_gearlog'' example_world)) ''enable_gearlog''
       = Some (Some ''true'')
   \<and> flag_enabled ''enable_gearlog''
         (snd (toggle_feature ''enable_gearlog'' (snd (toggle_feature ''enable_gearlog'' example_world))))
       = flag_enabled ''enable_gearlog'' example_world"
proof -
  have a: "settings example_world ''enable_gearlog'' = None" by (simp add: example_world_def)
  from toggle_feature_twice [of "''enable_gearlog''" example_world] a show ?thesis by simp
qed

subsection \<open>Label parameters that do not parse\<close>



subsection \<open>Pages of the label document\<close>

text \<open>
  Claim C2. With start 1 on the grid of 5 columns and 13 rows, 65 labels give a
  document of exactly one page and 66 labels give exactly two pages, the 66th label
  being the first of page 2, in column 0 and row 0. In general the pages of the
  document are the consecutive runs of 65 labels: the label of index \<open>i\<close> is the label
  number \<open>i mod 65\<close> of page \<open>i div 65\<close>, so a page starts exactly at the labels whose
  index is a multiple of 65.
\<close>

theorem generate_labels_sheets:
  "fst (render_labels start_num count)
     = map (sheet start_num (nat count)) [0..<(nat count + 64) div 65]
   \<and> (\<forall>i < nat count.
         fst (render_labels start_num count) ! (i div 65) ! (i mod 65) = nth_label start_num i)
   \<and> length (fst (render_labels 1 65)) = 1
   \<and> length (fst (render_labels 1 66)) = 2
   \<and> fst (render_labels 1 66) ! 1 ! 0
       = \<lparr>label_text = ''ROLL #0066'', barcode = ''0066'', col = 0, row = 0, x_mm = 10, y_mm = 264\<rparr>"
proof -
  have one: "length (fst (render_labels 1 65)) = 1"
    by (simp add: render_labels_pages)
  have two: "length (fst (render_labels 1 66)) = 2"
    by (simp add: render_labels_pages)
  have "(65::nat) < nat 66" by simp
  then have "fst (render_labels 1 66) ! (65 div 65) ! (65 mod 65) = nth_label 1 65"
    by (rule label_position)
  then have first: "fst (render_labels 1 66) ! 1 ! 0
       = \<lparr>label_text = ''ROLL #0066'', barcode = ''0066'', col = 0, row = 0, x_mm = 10, y_mm = 264\<rparr>"
    by (simp add: label_66)
  have pos: "\<forall>i < nat count.
         fst (render_labels start_num count) ! (i div 65) ! (i mod 65) = nth_label start_num i"
    using label_position by blast
  from render_labels_pages [of start_num count] pos one two first show ?thesis
    by blast
qed

theorem generate_labels_sheets_witness:
  "(65::nat) < nat 66
   \<and> fst (render_labels 1 66) ! (65 div 65) ! (65 mod 65) = nth_label 1 65
   \<and> col (nth_label 1 65) = 0 \<and> row (nth_label 1 65) = 0"
proof -
  have a: "(65::nat) < nat 66" by simp
  have b: "col (nth_label 1 65) = 0 \<and> row (nth_label 1 65) = 0" by (simp add: label_66)
  from generate_labels_sheets [of 1 66] a
  have "fst (render_labels 1 66) ! (65 div 65) ! (65 mod 65) = nth_label 1 65" by blast
  with a b show ?thesis by simp
qed

subsection \<open>An upload that is not an allowed image\<close>



subsection \<open>A date that does not parse, on creation\<close>

text \<open>
  Claim C4, as the code has it. The claim as stated (the form is shown again with a
  message, nothing else is stored) fails: \<^verbatim>\<open>add_roll\<close> catches the \<^verbatim>\<open>ValueError\<close> of a
  malformed date and stores no date. At the request below the malformed
  \<^verbatim>\<open>date_started\<close> gives a redirect and a new row whose \<^verbatim>\<open>date_started\<close> is empty.
\<close>

theorem add_roll_bad_date_counterexample:
  "form example_bad_date_post ''date_started'' = Some ''13/01/2024''
   \<and> strptime_ymd ''13/01/2024'' = None
   \<and> add_roll example_env example_bad_date_post example_world
       = (Redirect ''index'',
          example_world\<lparr>rolls :=
            [example_roll,
             \<lparr>rid = 2, film_type = ''HP5'', iso = None, camera = Some ''Nikon F3'', lens = None,
              date_started = None, date_finished = None, date_added = 1700000000,
              contact_sheet = None, roll_notes = Some []\<rparr>]\<rparr>)"
proof -
  have a: "form example_bad_date_post ''date_started'' = Some ''13/01/2024''"
    by (simp add: example_bad_date_post_def)
  have b: "strptime_ymd ''13/01/2024'' = None"
    by (simp add: strptime_ymd_def is_digit_def)
  have cid: "custom_id example_bad_date_post (rolls example_world) = 2"
    by (simp add: custom_id_def example_bad_date_post_def py_int_2)
  have free: "query_get (rolls example_world) 2 = None"
    by (simp add: query_get_def example_world_def example_roll_def)
  have nv: "\<not> valid_upload no_upload" by (simp add: valid_upload_def no_upload_def)
  have r: "rolls example_world = [example_roll]" by (simp add: example_world_def)
  have "add_roll example_env example_bad_date_post example_world
       = (Redirect ''index'',
          example_world\<lparr>rolls := rolls example_world @
             [\<lparr>rid = 2, film_type = ''HP5'', iso = None, camera = Some ''Nikon F3'', lens = None,
              date_started = None, date_finished = None, date_added = 1700000000,
              contact_sheet = None, roll_notes = Some []\<rparr>]\<rparr>)"
    unfolding add_roll_def new_roll_def cid Let_def
    by (simp add: free nv b example_bad_date_post_def example_env_def parse_iso_def
                  parse_date_add_def insert_roll_def)
  with a b r show ?thesis by simp
qed

text \<open>
  Claim C4, amended. For a create-roll request whose \<^verbatim>\<open>date_started\<close> or
  \<^verbatim>\<open>date_finished\<close> is a non-empty string that \<^verbatim>\<open>strptime\<close> rejects, the error is caught
  inside \<^verbatim>\<open>add_roll\<close>: the request is handled exactly as if that field had been left
  empty, and a roll that gets created has no date in that column.
\<close>

theorem add_roll_bad_date:
  assumes "k = ''date_started'' \<or> k = ''date_finished''"
    and "form req k = Some s" and "s \<noteq> []" and "strptime_ymd s = None"
  shows "add_roll e req w = add_roll e (req\<lparr>form := (form req)(k \<mapsto> [])\<rparr>) w
    \<and> (fst (add_roll e req w) = Redirect ''index'' \<longrightarrow>
          rolls (snd (add_roll e req w)) \<noteq> []
          \<and> (if k = ''date_started'' then date_started (last (rolls (snd (add_roll e req w))))
               else date_finished (last (rolls (snd (add_roll e req w))))) = None)"
proof -
  from assms(2,3,4) have p: "parse_date_add (form req k) = None"
    by (simp add: parse_date_add_def)
  have same: "add_roll e req w = add_roll e (req\<lparr>form := (form req)(k \<mapsto> [])\<rparr>) w"
    using assms(1)
  proof
    assume k: "k = ''date_started''"
    with p have "parse_date_add (form req ''date_started'') = None" by simp
    with k show ?thesis
      by (intro add_roll_request_cong [symmetric]) (simp_all add: parse_date_add_def)
  next
    assume k: "k = ''date_finished''"
    with p have "parse_date_add (form req ''date_finished'') = None" by simp
    with k show ?thesis
      by (intro add_roll_request_cong [symmetric]) (simp_all add: parse_date_add_def)
  qed
  have none: "rolls (snd (add_roll e req w)) \<noteq> []
          \<and> (if k = ''date_started'' then date_started (last (rolls (snd (add_roll e req w))))
               else date_finished (last (rolls (snd (add_roll e req w))))) = None"
    if "fst (add_roll e req w) = Redirect ''index''"
  proof -
    from that add_roll_redirect [of e req w] obtain r where
      r: "rolls (snd (add_roll e req w)) = rolls w @ [r]"
         "date_started r = parse_date_add (form req ''date_started'')"
         "date_finished r = parse_date_add (form req ''date_finished'')"
      by blast
    from assms(1) p r show ?thesis by auto
  qed
  from same none show ?thesis by blast
qed

theorem add_roll_bad_date_witness:
  "form example_bad_date_post ''date_started'' = Some ''13/01/2024''
   \<and> strptime_ymd ''13/01/2024'' = None
   \<and> add_roll example_env example_bad_date_post example_world
       = add_roll example_env
           (example_bad_date_post\<lparr>form := (form example_bad_date_post)(''date_started'' \<mapsto> [])\<rparr>)
           example_world"
proof -
  have a: "form example_bad_date_post ''date_started'' = Some ''13/01/2024''"
    by (simp add: example_bad_date_post_def)
  have b: "strptime_ymd ''13/01/2024'' = None"
    by (simp add: strptime_ymd_def is_digit_def)
  have c: "''13/01/2024'' \<noteq> []" by simp
  have k: "''date_started'' = ''date_started'' \<or> ''date_started'' = ''date_finished''" by simp
  from add_roll_bad_date [OF k a c b, of example_env example_world] a b show ?thesis by blast
qed

subsection \<open>Ids of deleted rolls\<close>




subsection \<open>The contact sheet on edit\<close>



subsection \<open>Entries of an imported archive\<close>




subsection \<open>Search results\<close>





end
